theory Spec2Isabelle
  imports Main "HOL-Library.AList"
begin

section \<open>The UPnP/IGD component: setup, teardown and the refresh coordinator\<close>

text \<open>
  A shallow embedding of \<^verbatim>\<open>homeassistant/components/upnp/__init__.py\<close>.
  Coroutines become functions on an explicit state; every call to a
  collaborator (ssdp, the config entries, the device registry, the device) is
  appended to a log of calls, so that the order and the number of calls can be
  stated. What a collaborator answers is read from an environment record.
\<close>

subsection \<open>Python values, dictionaries and exceptions\<close>

datatype py_value = PyInt int | PyStr string | PyBool bool | PyNone

text \<open>
  A Python \<^verbatim>\<open>dict\<close> keeps its keys in insertion order and holds each key once:
  an association list. \<^verbatim>\<open>d[k] = v\<close> is \<^const>\<open>AList.update\<close> (the value is replaced in
  place, a new key goes last), \<^verbatim>\<open>d.get(k)\<close> is \<^const>\<open>map_of\<close>.
\<close>

type_synonym ('k, 'v) py_dict = "('k \<times> 'v) list"

text \<open>\<^verbatim>\<open>d.update(other)\<close>: the items of \<^verbatim>\<open>other\<close> are stored one by one, in their order.\<close>

definition dict_update :: "('k, 'v) py_dict \<Rightarrow> ('k, 'v) py_dict \<Rightarrow> ('k, 'v) py_dict" where
  "dict_update d other = fold (\<lambda>(k, v). AList.update k v) other d"

text \<open>\<^verbatim>\<open>d.get(k, default)\<close>.\<close>

definition dict_get :: "('k, 'v) py_dict \<Rightarrow> 'k \<Rightarrow> 'v \<Rightarrow> 'v" where
  "dict_get d k dflt = (case map_of d k of None \<Rightarrow> dflt | Some v \<Rightarrow> v)"

text \<open>
  The exceptions that the functions of this module meet: a missing key, a
  subscript on \<^verbatim>\<open>None\<close>, \<^verbatim>\<open>asyncio.TimeoutError\<close>, the cancellation of the running
  task, the overflow of a \<^verbatim>\<open>timedelta\<close>, the retryable \<^verbatim>\<open>ConfigEntryNotReady\<close>, and
  the failures of the device collaborator (spec 6: \<^verbatim>\<open>DeviceFetchError\<close>,
  \<^verbatim>\<open>NetworkError\<close>).
\<close>

datatype error =
    KeyError string
  | TypeError
  | TimeoutError
  | CancelledError
  | OverflowError
  | ConfigEntryNotReady
  | DeviceFetchError
  | NetworkError

subsection \<open>The device and the coordinator\<close>

text \<open>
  \<^verbatim>\<open>Device\<close> (\<^verbatim>\<open>device.py\<close>) is a collaborator; this module reads the attributes
  below. Its two queries answer with a mapping or raise.
\<close>

record device =
  unique_id :: string
  udn :: string
  hostname :: string
  name :: string
  manufacturer :: string
  model_name :: string

record fetches =
  traffic_data :: "error + (string, py_value) py_dict"
  status :: "error + (string, py_value) py_dict"
  status_raises_first :: bool

text \<open>
  \<^verbatim>\<open>asyncio.gather(a, b)\<close> without \<^verbatim>\<open>return_exceptions\<close>: the results in the order of
  the arguments when both return; otherwise the exception that is raised first
  reaches the caller (when both raise, the environment says which one was first).
\<close>

definition gather :: "bool \<Rightarrow> error + 'a \<Rightarrow> error + 'a \<Rightarrow> error + ('a \<times> 'a)" where
  "gather second_first a b =
     (case (a, b) of
        (Inr x, Inr y) \<Rightarrow> Inr (x, y)
      | (Inl e, Inr _) \<Rightarrow> Inl e
      | (Inr _, Inl e) \<Rightarrow> Inl e
      | (Inl e1, Inl e2) \<Rightarrow> Inl (if second_first then e2 else e1))"

text \<open>
  \<^verbatim>\<open>UpnpDataUpdateCoordinator._async_update_data\<close> (lines 207-217):
  \<^verbatim>\<open>data = dict(update_values[0]); data.update(update_values[1]); return data\<close>.
\<close>

definition async_update_data :: "fetches \<Rightarrow> error + (string, py_value) py_dict" where
  "async_update_data f =
     (case gather (status_raises_first f) (traffic_data f) (status f) of
        Inl e \<Rightarrow> Inl e
      | Inr update_values \<Rightarrow>
          (let data = fst update_values;
               data = dict_update data (snd update_values)
           in Inr data))"

text \<open>
  Modelled from the spec: the base class \<^verbatim>\<open>DataUpdateCoordinator\<close>
  (\<^verbatim>\<open>helpers/update_coordinator.py\<close>) is not among the sources. Its state is the spec's
  RefreshCoordinator state: the device handle, the interval, \<^verbatim>\<open>last_snapshot\<close> (the
  attribute \<^verbatim>\<open>data\<close>), \<^verbatim>\<open>last_update_success\<close> and \<^verbatim>\<open>last_exception\<close>; \<open>notified\<close> counts
  the notifications sent to the consumers.
\<close>

record coordinator =
  coordinator_device :: device
  update_interval :: int
  data :: "(string, py_value) py_dict option"
  last_update_success :: bool
  last_exception :: "error option"
  notified :: nat

text \<open>
  \<^verbatim>\<open>UpnpDataUpdateCoordinator.__init__\<close> (lines 197-205). The initial values of the
  base class's attributes are not in the spec: no snapshot, no exception, and
  the success flag set.
\<close>

definition new_coordinator :: "device \<Rightarrow> int \<Rightarrow> coordinator" where
  "new_coordinator dev interval =
     \<lparr>coordinator_device = dev, update_interval = interval, data = None,
      last_update_success = True, last_exception = None, notified = 0\<rparr>"

text \<open>
  Modelled from the spec: one refresh cycle of the base class (spec 4.3, steps
  2 and 3). If a fetch fails the cycle fails: the error is recorded, the flag
  is cleared, \<^verbatim>\<open>last_snapshot\<close> is left as it is, the consumers are notified. If
  all succeed the merged mapping is the new \<^verbatim>\<open>last_snapshot\<close>, the flag is set,
  the consumers are notified.
\<close>

definition async_refresh :: "fetches \<Rightarrow> coordinator \<Rightarrow> coordinator" where
  "async_refresh f c =
     (case async_update_data f of
        Inl e \<Rightarrow> c\<lparr>last_update_success := False, last_exception := Some e,
                   notified := Suc (notified c)\<rparr>
      | Inr snapshot \<Rightarrow> c\<lparr>data := Some snapshot, last_update_success := True,
                          notified := Suc (notified c)\<rparr>)"

subsection \<open>Constants\<close>

text \<open>
  Modelled from the spec: \<^verbatim>\<open>const.py\<close> and the ssdp component are not among the
  sources. The keys of the stored configuration are the spec's udn, service
  type, hostname and scan interval, the one setting is the local source IP
  override, and the default scan interval is the spec's 30 seconds.
\<close>

definition CONFIG_ENTRY_UDN :: string where "CONFIG_ENTRY_UDN = ''udn''"
definition CONFIG_ENTRY_ST :: string where "CONFIG_ENTRY_ST = ''st''"
definition CONFIG_ENTRY_HOSTNAME :: string where "CONFIG_ENTRY_HOSTNAME = ''hostname''"
definition CONFIG_ENTRY_SCAN_INTERVAL :: string where
  "CONFIG_ENTRY_SCAN_INTERVAL = ''scan_interval''"
definition DEFAULT_SCAN_INTERVAL :: int where "DEFAULT_SCAN_INTERVAL = 30"
definition CONF_LOCAL_IP :: string where "CONF_LOCAL_IP = ''local_ip''"
definition DOMAIN :: string where "DOMAIN = ''upnp''"
definition ATTR_SSDP_LOCATION :: string where "ATTR_SSDP_LOCATION = ''ssdp_location''"

text \<open>Line 44.\<close>

definition PLATFORMS :: "string list" where
  "PLATFORMS = [''binary_sensor'', ''sensor'']"

subsection \<open>The state: the config entry, the shared data, the calls made\<close>

record config_entry =
  entry_id :: string
  entry_unique_id :: "string option"
  entry_data :: "(string, string) py_dict"
  options :: "(string, int) py_dict"

text \<open>
  \<^verbatim>\<open>hass.data[DOMAIN]\<close>: the three entries written by \<^verbatim>\<open>async_setup\<close> and, under the
  entry ids, the coordinators (an entry id is never one of the three fixed keys).
\<close>

record domain_data =
  domain_config :: "(string, string) py_dict"
  domain_devices :: "(string, device) py_dict"
  domain_local_ip :: string
  coordinators :: "(string, coordinator) py_dict"

text \<open>The calls to collaborators, with the arguments that this module chooses.\<close>

datatype call =
    GetSourceIp
  | FlowInit
  | RegisterCallback "(string, string) py_dict"
  | CancelCallback
  | CreateDevice string
  | UpdateEntry "string option" "(string, string) py_dict option"
  | RegistryGetOrCreate string string string string string
  | FirstRefresh
  | SetupPlatforms "string list"
  | DeviceStart
  | DeviceStop
  | UnloadPlatforms "string list"

text \<open>
  \<open>hass_data\<close> is \<^verbatim>\<open>hass.data.get(DOMAIN)\<close>, \<open>entry\<close> is the config entry that
  \<^verbatim>\<open>hass.config_entries\<close> holds and that the functions below are called with.
\<close>

record hass =
  hass_data :: "domain_data option"
  entry :: config_entry
  calls :: "call list"

definition called :: "call \<Rightarrow> hass \<Rightarrow> hass" where
  "called c h = h\<lparr>calls := calls h @ [c]\<rparr>"

text \<open>
  What the collaborators answer. An announcement is a discovery event that the
  ssdp scanner sees \<open>arrival\<close> time units after the registration, with its
  headers; the list is in the order of arrival. \<open>interrupt\<close> is the time at
  which an exception is raised into the waiting task and that exception (a
  cancellation of the task running the setup), if there is one.
\<close>

record announcement =
  arrival :: nat
  info :: "(string, string) py_dict"

record env =
  source_ip :: string
  announcements :: "announcement list"
  interrupt :: "(nat \<times> error) option"
  create_device :: "string \<Rightarrow> error + device"
  first_refresh :: fetches
  platforms_unloaded :: bool

subsection \<open>Component setup\<close>

text \<open>
  \<^verbatim>\<open>async_setup\<close> (lines 58-78). \<^verbatim>\<open>CONFIG_SCHEMA({DOMAIN: {}})[DOMAIN]\<close> is the empty
  mapping: the schema has one optional key.
\<close>

definition async_setup ::
  "env \<Rightarrow> (string, (string, string) py_dict) py_dict \<Rightarrow> hass \<Rightarrow> bool \<times> hass" where
  "async_setup env config h =
     (let conf_default = [];
          conf = dict_get config DOMAIN conf_default;
          h = called GetSourceIp h;
          local_ip = source_ip env;
          h = h\<lparr>hass_data := Some
                 \<lparr>domain_config = conf,
                  domain_devices = [],
                  domain_local_ip = dict_get conf CONF_LOCAL_IP local_ip,
                  coordinators = []\<rparr>\<rparr>;
          h = (if map_of config DOMAIN \<noteq> None then called FlowInit h else h)
      in (True, h))"

subsection \<open>Waiting for the discovery\<close>

text \<open>The variables shared by \<^verbatim>\<open>async_setup_entry\<close> and its callback (lines 90-91).\<close>

record waiter =
  discovery_info :: "(string, string) py_dict option"
  device_discovered_event :: bool

text \<open>
  The callback \<^verbatim>\<open>device_discovered\<close> (lines 93-100). The debug message reads
  \<^verbatim>\<open>info[ssdp.ATTR_SSDP_LOCATION]\<close> before anything is stored.
\<close>

definition device_discovered :: "(string, string) py_dict \<Rightarrow> waiter \<Rightarrow> error + waiter" where
  "device_discovered i w =
     (case map_of i ATTR_SSDP_LOCATION of
        None \<Rightarrow> Inl (KeyError ATTR_SSDP_LOCATION)
      | Some _ \<Rightarrow> Inr (w\<lparr>discovery_info := Some i, device_discovered_event := True\<rparr>))"

text \<open>
  Modelled from the spec: the ssdp scanner is not among the sources. Spec 4.1:
  the matching rule is a field match against the identity token, with no
  partial or fuzzy matching: every field of the filter is in the announcement
  with the same value.
\<close>

definition headers_match :: "(string, string) py_dict \<Rightarrow> (string, string) py_dict \<Rightarrow> bool" where
  "headers_match i match_dict = list_all (\<lambda>(k, v). map_of i k = Some v) match_dict"

text \<open>
  The scanner calls the callback with each matching announcement that arrives
  while the callback is registered. The callback has no guard of its own: every
  call that finds a location stores its announcement, so the setup reads the
  last one that was delivered. The callback is registered until the waiter
  runs again and reaches its \<^verbatim>\<open>finally\<close> clause, which is after the time unit in
  which the event was first set (\<open>set_at\<close>): an announcement that arrives in that
  same time unit is still delivered, a later one is not. Nothing is delivered
  from \<open>limit\<close> on, when the wait has ended otherwise. An exception of the callback
  stays with the scanner.
\<close>

fun deliver ::
  "nat \<Rightarrow> (string, string) py_dict \<Rightarrow> nat option \<Rightarrow> announcement list \<Rightarrow> waiter \<Rightarrow> waiter"
  where
  "deliver limit match_dict set_at [] w = w"
| "deliver limit match_dict set_at (a # as) w =
     (if (case set_at of None \<Rightarrow> False | Some t \<Rightarrow> t < arrival a) then w
      else if arrival a < limit \<and> headers_match (info a) match_dict
      then (case device_discovered (info a) w of
              Inl _ \<Rightarrow> deliver limit match_dict set_at as w
            | Inr w' \<Rightarrow>
                deliver limit match_dict
                  (case set_at of None \<Rightarrow> Some (arrival a) | Some t \<Rightarrow> Some t) as w')
      else deliver limit match_dict set_at as w)"

text \<open>
  \<^verbatim>\<open>asyncio.wait_for(device_discovered_event.wait(), timeout)\<close>: returns once the
  event is set; raises \<^verbatim>\<open>TimeoutError\<close> when \<open>timeout\<close> time units pass first; and
  raises the exception of the interrupt when that comes first, also when it
  comes together with the timeout (a cancellation is not turned into a timeout).
\<close>

definition wait_for ::
  "env \<Rightarrow> (string, string) py_dict \<Rightarrow> nat \<Rightarrow> waiter \<Rightarrow> (error + unit) \<times> waiter" where
  "wait_for env match_dict timeout w =
     (let limit = (case interrupt env of None \<Rightarrow> timeout | Some (c, _) \<Rightarrow> min c timeout);
          w = deliver limit match_dict None (announcements env) w
      in if device_discovered_event w then (Inr (), w)
         else (case interrupt env of
                 None \<Rightarrow> (Inl TimeoutError, w)
               | Some (c, err) \<Rightarrow> if c \<le> timeout then (Inl err, w) else (Inl TimeoutError, w)))"

text \<open>
  Lines 89-116 of \<^verbatim>\<open>async_setup_entry\<close>: register the callback, wait at most 10
  time units, and cancel the callback in the \<^verbatim>\<open>finally\<close> clause, which runs
  whether the wait returns, times out (the handler raises
  \<^verbatim>\<open>ConfigEntryNotReady\<close>) or raises anything else.
\<close>

definition wait_for_discovery :: "env \<Rightarrow> string \<Rightarrow> hass \<Rightarrow> (error + waiter) \<times> hass" where
  "wait_for_discovery env usn h =
     (let w = \<lparr>discovery_info = None, device_discovered_event = False\<rparr>;
          h = called (RegisterCallback [(''usn'', usn)]) h;
          (r, w) = wait_for env [(''usn'', usn)] 10 w;
          raised = (case r of
                      Inr _ \<Rightarrow> None
                    | Inl TimeoutError \<Rightarrow> Some ConfigEntryNotReady
                    | Inl err \<Rightarrow> Some err);
          h = called CancelCallback h
      in case raised of
           Some err \<Rightarrow> (Inl err, h)
         | None \<Rightarrow> (Inr w, h))"

subsection \<open>Setting up a config entry\<close>

text \<open>
  Modelled from the spec: \<^verbatim>\<open>hass.config_entries.async_update_entry\<close> is not among
  the sources. Spec 6: update functions for the unique id and for the stored
  data; an argument that is not given leaves its attribute as it is.
\<close>

definition async_update_entry ::
  "string option \<Rightarrow> (string, string) py_dict option \<Rightarrow> hass \<Rightarrow> hass" where
  "async_update_entry new_unique_id new_data h =
     (let e = entry h;
          e = (case new_unique_id of None \<Rightarrow> e | Some u \<Rightarrow> e\<lparr>entry_unique_id := Some u\<rparr>);
          e = (case new_data of None \<Rightarrow> e | Some d \<Rightarrow> e\<lparr>entry_data := d\<rparr>)
      in called (UpdateEntry new_unique_id new_data) (h\<lparr>entry := e\<rparr>))"

text \<open>Python's \<^verbatim>\<open>not entry.unique_id\<close>: \<^verbatim>\<open>None\<close> and the empty string are falsy.\<close>

definition falsy :: "string option \<Rightarrow> bool" where
  "falsy u = (case u of None \<Rightarrow> True | Some s \<Rightarrow> s = [])"

text \<open>
  Lines 124-144. The dict display \<^verbatim>\<open>{CONFIG_ENTRY_HOSTNAME: device.hostname, **entry.data}\<close>
  stores the hostname first and then every item of \<^verbatim>\<open>entry.data\<close>.
\<close>

definition reconcile_entry :: "device \<Rightarrow> hass \<Rightarrow> hass" where
  "reconcile_entry dev h =
     (let h = (if falsy (entry_unique_id (entry h))
               then async_update_entry (Some (unique_id dev)) None h
               else h);
          h = (if (case map_of (entry_data (entry h)) CONFIG_ENTRY_HOSTNAME of
                     None \<Rightarrow> True
                   | Some stored \<Rightarrow> stored \<noteq> hostname dev)
               then async_update_entry None
                      (Some (dict_update [(CONFIG_ENTRY_HOSTNAME, hostname dev)]
                               (entry_data (entry h)))) h
               else h)
      in h)"

text \<open>
  Modelled from the spec: \<^verbatim>\<open>async_config_entry_first_refresh\<close> of the base class
  is not among the sources. Spec 4.3, step 4: the first cycle runs
  synchronously and is mandatory; if it fails the setup fails.
\<close>

definition async_config_entry_first_refresh ::
  "fetches \<Rightarrow> coordinator \<Rightarrow> (error + unit) \<times> coordinator" where
  "async_config_entry_first_refresh f c =
     (let c = async_refresh f c
      in if last_update_success c then (Inr (), c) else (Inl ConfigEntryNotReady, c))"

text \<open>
  \<^verbatim>\<open>timedelta(seconds=n)\<close> for an integer: the days are \<open>n div 86400\<close>, and
  \<^verbatim>\<open>OverflowError\<close> is raised unless they are within 999999999 days of zero. The
  interval is kept in seconds.
\<close>

definition timedelta_seconds :: "int \<Rightarrow> error + int" where
  "timedelta_seconds n =
     (if - 999999999 \<le> n div 86400 \<and> n div 86400 \<le> 999999999 then Inr n
      else Inl OverflowError)"

text \<open>
  Lines 146-180: the device registry entry, the update interval, the
  coordinator stored under the entry id, the first refresh (the stored
  coordinator is the object that is refreshed), the platforms, the device's
  updater.
\<close>

definition start_coordinator :: "env \<Rightarrow> device \<Rightarrow> hass \<Rightarrow> (error + bool) \<times> hass" where
  "start_coordinator env dev h =
     (let e = entry h;
          h = called (RegistryGetOrCreate (entry_id e) (udn dev) (name dev)
                        (manufacturer dev) (model_name dev)) h;
          update_interval_sec = dict_get (options e) CONFIG_ENTRY_SCAN_INTERVAL
                                  DEFAULT_SCAN_INTERVAL
      in case timedelta_seconds update_interval_sec of
           Inl err \<Rightarrow> (Inl err, h)
         | Inr interval \<Rightarrow>
     (let c = new_coordinator dev interval
      in case hass_data h of
           None \<Rightarrow> (Inl (KeyError DOMAIN), h)
         | Some d \<Rightarrow>
             (let h = called FirstRefresh h;
                  (r, c) = async_config_entry_first_refresh (first_refresh env) c;
                  h = h\<lparr>hass_data :=
                         Some (d\<lparr>coordinators := AList.update (entry_id e) c (coordinators d)\<rparr>)\<rparr>
              in case r of
                   Inl err \<Rightarrow> (Inl err, h)
                 | Inr _ \<Rightarrow>
                     (let h = called (SetupPlatforms PLATFORMS) h;
                          h = called DeviceStart h
                      in (Inr True, h)))))"

text \<open>\<^verbatim>\<open>async_setup_entry\<close> (lines 81-180).\<close>

definition async_setup_entry :: "env \<Rightarrow> hass \<Rightarrow> (error + bool) \<times> hass" where
  "async_setup_entry env h =
     (case map_of (entry_data (entry h)) CONFIG_ENTRY_UDN of
        None \<Rightarrow> (Inl (KeyError CONFIG_ENTRY_UDN), h)
      | Some udn' \<Rightarrow>
     (case map_of (entry_data (entry h)) CONFIG_ENTRY_ST of
        None \<Rightarrow> (Inl (KeyError CONFIG_ENTRY_ST), h)
      | Some st' \<Rightarrow>
     (let usn = udn' @ ''::'' @ st'
      in case wait_for_discovery env usn h of
           (Inl err, h) \<Rightarrow> (Inl err, h)
         | (Inr w, h) \<Rightarrow>
     (case discovery_info w of
        None \<Rightarrow> (Inl TypeError, h)
      | Some i \<Rightarrow>
     (case map_of i ATTR_SSDP_LOCATION of
        None \<Rightarrow> (Inl (KeyError ATTR_SSDP_LOCATION), h)
      | Some location \<Rightarrow>
     (let h = called (CreateDevice location) h
      in case create_device env location of
           Inl err \<Rightarrow> (Inl err, h)
         | Inr dev \<Rightarrow> start_coordinator env dev (reconcile_entry dev h)))))))"

subsection \<open>Unloading a config entry\<close>

text \<open>
  \<^verbatim>\<open>async_unload_entry\<close> (lines 183-191). \<^verbatim>\<open>pop(entry_id, None)\<close> removes the
  coordinator and returns it, or returns \<^verbatim>\<open>None\<close>; a coordinator is truthy. The
  stop of the device and the unloading of the platforms are calls to
  collaborators that return (spec 7: teardown operations are best-effort); the
  environment gives the result of the unloading.
\<close>

definition async_unload_entry :: "env \<Rightarrow> hass \<Rightarrow> (error + bool) \<times> hass" where
  "async_unload_entry env h =
     (case hass_data h of
        None \<Rightarrow> (Inl (KeyError DOMAIN), h)
      | Some d \<Rightarrow>
          (let popped = map_of (coordinators d) (entry_id (entry h));
               h = h\<lparr>hass_data :=
                      Some (d\<lparr>coordinators := AList.delete (entry_id (entry h)) (coordinators d)\<rparr>)\<rparr>;
               h = (case popped of None \<Rightarrow> h | Some coordinator \<Rightarrow> called DeviceStop h);
               h = called (UnloadPlatforms PLATFORMS) h
           in (Inr (platforms_unloaded env), h)))"

subsection \<open>Reading the log of calls\<close>

definition registrations :: "call list \<Rightarrow> nat" where
  "registrations cs = length (filter (\<lambda>c. case c of RegisterCallback _ \<Rightarrow> True | _ \<Rightarrow> False) cs)"

definition cancellations :: "call list \<Rightarrow> nat" where
  "cancellations cs = length (filter (\<lambda>c. c = CancelCallback) cs)"

definition stops :: "call list \<Rightarrow> nat" where
  "stops cs = length (filter (\<lambda>c. c = DeviceStop) cs)"

definition is_update :: "call \<Rightarrow> bool" where
  "is_update c = (case c of UpdateEntry _ _ \<Rightarrow> True | _ \<Rightarrow> False)"

definition is_ssdp :: "call \<Rightarrow> bool" where
  "is_ssdp c = (case c of RegisterCallback _ \<Rightarrow> True | CancelCallback \<Rightarrow> True | _ \<Rightarrow> False)"

subsection \<open>Example inputs\<close>

text \<open>
  The example of the spec (section 8): the identity
  \<^verbatim>\<open>udn123::urn:schemas-upnp-org:service:WANIPConnection:1\<close> is announced after 2
  time units at \<^verbatim>\<open>http://192.168.1.1:1900/desc.xml\<close>; the first refresh merges
  \<^verbatim>\<open>{"bytes_sent": 100}\<close> and \<^verbatim>\<open>{"status": "Connected"}\<close>. The config entry is an
  older one: it has a unique id of its own and the hostname \<^verbatim>\<open>10.0.0.1\<close>.
\<close>

definition example_device :: device where
  "example_device =
     \<lparr>unique_id = ''udn123::igd'', udn = ''udn123'', hostname = ''192.168.1.1'',
      name = ''Router'', manufacturer = ''ACME'', model_name = ''IGD''\<rparr>"

definition example_fetches :: fetches where
  "example_fetches =
     \<lparr>traffic_data = Inr [(''bytes_sent'', PyInt 100)],
      status = Inr [(''status'', PyStr ''Connected'')],
      status_raises_first = False\<rparr>"

definition example_env :: env where
  "example_env =
     \<lparr>source_ip = ''192.168.1.10'',
      announcements =
        [\<lparr>arrival = 2,
          info = [(''usn'', ''udn123::urn:schemas-upnp-org:service:WANIPConnection:1''),
                  (''ssdp_location'', ''http://192.168.1.1:1900/desc.xml'')]\<rparr>],
      interrupt = None,
      create_device = (\<lambda>location. if location = ''http://192.168.1.1:1900/desc.xml''
                                  then Inr example_device else Inl DeviceFetchError),
      first_refresh = example_fetches,
      platforms_unloaded = True\<rparr>"

definition example_hass :: hass where
  "example_hass =
     \<lparr>hass_data = Some \<lparr>domain_config = [], domain_devices = [],
                          domain_local_ip = ''192.168.1.10'', coordinators = []\<rparr>,
      entry = \<lparr>entry_id = ''entry1'', entry_unique_id = Some ''older-id'',
               entry_data = [(''udn'', ''udn123''),
                             (''st'', ''urn:schemas-upnp-org:service:WANIPConnection:1''),
                             (''hostname'', ''10.0.0.1'')],
               options = []\<rparr>,
      calls = []\<rparr>"

text \<open>No announcement at all; the task cancelled after 1 time unit; a failing status query.\<close>

definition silent_env :: env where
  "silent_env = example_env\<lparr>announcements := []\<rparr>"

definition cancelled_env :: env where
  "cancelled_env = example_env\<lparr>interrupt := Some (1, CancelledError)\<rparr>"

definition failing_fetches :: fetches where
  "failing_fetches = example_fetches\<lparr>status := Inl NetworkError\<rparr>"

definition failing_env :: env where
  "failing_env = example_env\<lparr>first_refresh := failing_fetches\<rparr>"

text \<open>
  An announcement for another service after 3 time units and the matching one
  after 10; and the matching one after 9.
\<close>

definition late_env :: env where
  "late_env = example_env
     \<lparr>announcements :=
        [\<lparr>arrival = 3,
          info = [(''usn'', ''udn123::urn:schemas-upnp-org:service:WANPPPConnection:1''),
                  (''ssdp_location'', ''http://192.168.1.1:1900/desc.xml'')]\<rparr>,
         \<lparr>arrival = 10,
          info = [(''usn'', ''udn123::urn:schemas-upnp-org:service:WANIPConnection:1''),
                  (''ssdp_location'', ''http://192.168.1.1:1900/desc.xml'')]\<rparr>]\<rparr>"

definition prompt_env :: env where
  "prompt_env = example_env
     \<lparr>announcements :=
        [\<lparr>arrival = 9,
          info = [(''usn'', ''udn123::urn:schemas-upnp-org:service:WANIPConnection:1''),
                  (''ssdp_location'', ''http://192.168.1.1:1900/desc.xml'')]\<rparr>]\<rparr>"

text \<open>
  A caller that asks for a timeout of \<open>n\<close> time units wherever it can put one:
  in the options and the data of the config entry, and in the configuration of
  the component.
\<close>

definition asking_hass :: "int \<Rightarrow> string \<Rightarrow> hass" where
  "asking_hass n n_str =
     \<lparr>hass_data = Some \<lparr>domain_config = [(''timeout'', n_str)], domain_devices = [],
                          domain_local_ip = ''192.168.1.10'', coordinators = []\<rparr>,
      entry = \<lparr>entry_id = ''entry1'', entry_unique_id = Some ''older-id'',
               entry_data = [(''udn'', ''udn123''),
                             (''st'', ''urn:schemas-upnp-org:service:WANIPConnection:1''),
                             (''hostname'', ''10.0.0.1''),
                             (''timeout'', n_str)],
               options = [(''timeout'', n), (''scan_interval'', n)]\<rparr>,
      calls = []\<rparr>"

definition patient_hass :: hass where
  "patient_hass = asking_hass 20 ''20''"

definition hasty_hass :: hass where
  "hasty_hass = asking_hass 5 ''5''"

text \<open>An older config entry: no unique id and no hostname yet.\<close>

definition fresh_hass :: hass where
  "fresh_hass =
     example_hass\<lparr>entry := (entry example_hass)
       \<lparr>entry_unique_id := None,
        entry_data := [(''udn'', ''udn123''),
                       (''st'', ''urn:schemas-upnp-org:service:WANIPConnection:1'')]\<rparr>\<rparr>"

text \<open>A state in which the entry is loaded: its coordinator is stored.\<close>

definition loaded_data :: domain_data where
  "loaded_data =
     \<lparr>domain_config = [], domain_devices = [], domain_local_ip = ''192.168.1.10'',
      coordinators = [(''entry1'', new_coordinator example_device 30)]\<rparr>"

definition loaded_hass :: hass where
  "loaded_hass = example_hass\<lparr>hass_data := Some loaded_data\<rparr>"

section \<open>Properties\<close>

subsection \<open>Dictionaries\<close>

lemma map_of_dict_update:
  "distinct (map fst other) \<Longrightarrow> map_of (dict_update d other) = map_of d ++ map_of other"
proof (induction other arbitrary: d)
  case Nil
  show ?case by (simp add: dict_update_def)
next
  case (Cons p ps)
  obtain k v where p: "p = (k, v)" by (cases p)
  from Cons.prems have fresh: "map_of ps k = None" and dist: "distinct (map fst ps)"
    by (auto simp: p map_of_eq_None_iff)
  have "map_of (dict_update d (p # ps)) = map_of (dict_update (AList.update k v d) ps)"
    by (simp add: dict_update_def p)
  also have "\<dots> = map_of (AList.update k v d) ++ map_of ps"
    by (rule Cons.IH [OF dist])
  also have "\<dots> = map_of d ++ map_of (p # ps)"
    using fresh by (auto simp: p update_conv' fun_eq_iff map_add_def split: option.splits)
  finally show ?case .
qed

lemma keys_prefix_update:
  "take (length d) (map fst (AList.update k v d)) = map fst d"
  by (simp add: update_keys)

lemma length_update_ge: "length d \<le> length (AList.update k v d)"
  by (induction d) auto

lemma keys_prefix_dict_update:
  "take (length d) (map fst (dict_update d other)) = map fst d"
proof (induction other arbitrary: d)
  case Nil
  show ?case by (simp add: dict_update_def)
next
  case (Cons p ps)
  obtain k v where p: "p = (k, v)" by (cases p)
  let ?d' = "AList.update k v d"
  have step: "dict_update d (p # ps) = dict_update ?d' ps"
    by (simp add: dict_update_def p)
  have "take (length d) (map fst (dict_update ?d' ps))
          = take (length d) (take (length ?d') (map fst (dict_update ?d' ps)))"
    using length_update_ge [of d k v] by (simp add: min_def)
  also have "\<dots> = take (length d) (map fst ?d')"
    by (simp only: Cons.IH)
  also have "\<dots> = map fst d"
    by (rule keys_prefix_update)
  finally show ?case by (simp only: step)
qed

lemma keys_dict_update:
  "fst ` set (dict_update d other) = fst ` set d \<union> fst ` set other"
proof (induction other arbitrary: d)
  case Nil
  show ?case by (simp add: dict_update_def)
next
  case (Cons p ps)
  obtain k v where p: "p = (k, v)" by (cases p)
  have "dict_update d (p # ps) = dict_update (AList.update k v d) ps"
    by (simp add: dict_update_def p)
  then have "fst ` set (dict_update d (p # ps)) = ({k} \<union> fst ` set d) \<union> fst ` set ps"
    by (simp only: Cons.IH dom_update)
  then show ?case by (simp add: p)
qed

lemma distinct_dict_update:
  "distinct (map fst d) \<Longrightarrow> distinct (map fst (dict_update d other))"
  unfolding dict_update_def
  by (induction other arbitrary: d) (auto simp: distinct_update)

subsection \<open>The refresh cycle\<close>

text \<open>
  C2: when both fetches succeed, one cycle returns the key-union of the traffic
  mapping and the status mapping: its keys are the keys of both, a key of the
  status mapping has the status mapping's value (also when the traffic mapping
  has the key too), every other key has the traffic mapping's value; the
  traffic mapping's keys keep their places in front and no key occurs twice.
\<close>

theorem update_data_merges_traffic_then_status:
  assumes "distinct (map fst s)"
  shows "async_update_data \<lparr>traffic_data = Inr t, status = Inr s, status_raises_first = b\<rparr>
           = Inr (dict_update t s)
         \<and> fst ` set (dict_update t s) = fst ` set t \<union> fst ` set s
         \<and> map_of (dict_update t s) k
             = (case map_of s k of Some v \<Rightarrow> Some v | None \<Rightarrow> map_of t k)
         \<and> take (length t) (map fst (dict_update t s)) = map fst t"
proof -
  have "async_update_data \<lparr>traffic_data = Inr t, status = Inr s, status_raises_first = b\<rparr>
          = Inr (dict_update t s)"
    by (simp add: async_update_data_def gather_def)
  moreover have "map_of (dict_update t s) k
                   = (case map_of s k of Some v \<Rightarrow> Some v | None \<Rightarrow> map_of t k)"
    using map_of_dict_update [OF assms, of t]
    by (simp add: map_add_def split: option.splits)
  ultimately show ?thesis
    by (simp only: keys_dict_update keys_prefix_dict_update simp_thms)
qed

theorem update_data_merges_traffic_then_status_witness:
  "distinct (map fst [(''status'', PyStr ''Connected''), (''bytes_sent'', PyInt 7)])
   \<and> async_update_data
        \<lparr>traffic_data = Inr [(''bytes_sent'', PyInt 100)],
         status = Inr [(''status'', PyStr ''Connected''), (''bytes_sent'', PyInt 7)],
         status_raises_first = False\<rparr>
       = Inr [(''bytes_sent'', PyInt 7), (''status'', PyStr ''Connected'')]
   \<and> map_of (dict_update [(''bytes_sent'', PyInt 100)]
                [(''status'', PyStr ''Connected''), (''bytes_sent'', PyInt 7)]) ''bytes_sent''
       = Some (PyInt 7)"
proof -
  have d: "distinct (map fst [(''status'', PyStr ''Connected''), (''bytes_sent'', PyInt 7)])"
    by simp
  have e: "dict_update [(''bytes_sent'', PyInt 100)]
             [(''status'', PyStr ''Connected''), (''bytes_sent'', PyInt 7)]
           = [(''bytes_sent'', PyInt 7), (''status'', PyStr ''Connected'')]"
    by (simp add: dict_update_def)
  show ?thesis
    using update_data_merges_traffic_then_status
            [OF d, of "[(''bytes_sent'', PyInt 100)]" False "''bytes_sent''"]
    by (simp add: e)
qed

text \<open>
  C3: when at least one of the two fetches fails, the update raises; the cycle
  of the coordinator then leaves \<^verbatim>\<open>last_snapshot\<close> as it was and clears
  \<^verbatim>\<open>last_update_success\<close>, whatever the other fetch returned.
\<close>

theorem failed_fetch_fails_cycle:
  assumes "traffic_data f = Inl e1 \<or> status f = Inl e2"
  shows "(\<exists>e. async_update_data f = Inl e)
         \<and> data (async_refresh f c) = data c
         \<and> \<not> last_update_success (async_refresh f c)
         \<and> last_exception (async_refresh f c) \<noteq> None"
proof -
  have "\<exists>e. async_update_data f = Inl e"
    using assms
    by (cases "traffic_data f"; cases "status f")
       (simp_all add: async_update_data_def gather_def)
  then obtain e where "async_update_data f = Inl e" ..
  then show ?thesis by (simp add: async_refresh_def)
qed

theorem failed_fetch_fails_cycle_witness:
  "status failing_fetches = Inl NetworkError
   \<and> (\<exists>e. async_update_data failing_fetches = Inl e)
   \<and> data (async_refresh failing_fetches
              ((new_coordinator example_device 30)\<lparr>data := Some [(''bytes_sent'', PyInt 1)]\<rparr>))
       = Some [(''bytes_sent'', PyInt 1)]
   \<and> \<not> last_update_success (async_refresh failing_fetches
              ((new_coordinator example_device 30)\<lparr>data := Some [(''bytes_sent'', PyInt 1)]\<rparr>))"
proof -
  have s: "status failing_fetches = Inl NetworkError"
    by (simp add: failing_fetches_def)
  then have h: "traffic_data failing_fetches = Inl NetworkError
                \<or> status failing_fetches = Inl NetworkError" ..
  show ?thesis
    using s failed_fetch_fails_cycle [OF h,
            of "(new_coordinator example_device 30)\<lparr>data := Some [(''bytes_sent'', PyInt 1)]\<rparr>"]
    by simp
qed

subsection \<open>The discovery wait\<close>

lemma snd_wait_for_discovery:
  "snd (wait_for_discovery env usn h)
     = h\<lparr>calls := calls h @ [RegisterCallback [(''usn'', usn)], CancelCallback]\<rparr>"
  by (simp add: wait_for_discovery_def called_def Let_def
           split: prod.splits sum.splits error.splits option.splits)

lemma deliver_cases:
  "deliver limit m sa as w = w
   \<or> (\<exists>a\<in>set as. arrival a < limit \<and> headers_match (info a) m
          \<and> map_of (info a) ATTR_SSDP_LOCATION \<noteq> None
          \<and> deliver limit m sa as w
              = w\<lparr>discovery_info := Some (info a), device_discovered_event := True\<rparr>)"
proof (induction as arbitrary: sa w)
  case Nil
  show ?case by simp
next
  case (Cons a as)
  show ?case
  proof (cases "case sa of None \<Rightarrow> False | Some t \<Rightarrow> t < arrival a")
    case True
    then show ?thesis by simp
  next
    case go: False
    show ?thesis
    proof (cases "arrival a < limit \<and> headers_match (info a) m
                  \<and> map_of (info a) ATTR_SSDP_LOCATION \<noteq> None")
      case False
      then have "deliver limit m sa (a # as) w = deliver limit m sa as w"
        using go by (auto simp: device_discovered_def)
      with Cons.IH [of sa w] show ?thesis by auto
    next
      case True
      define w' where "w' = w\<lparr>discovery_info := Some (info a), device_discovered_event := True\<rparr>"
      define sa' where "sa' = (case sa of None \<Rightarrow> Some (arrival a) | Some t \<Rightarrow> Some t)"
      have step: "deliver limit m sa (a # as) w = deliver limit m sa' as w'"
        using go True by (auto simp: device_discovered_def w'_def sa'_def)
      from Cons.IH [of sa' w'] show ?thesis
      proof
        assume "deliver limit m sa' as w' = w'"
        with step True show ?thesis by (auto simp: w'_def)
      next
        assume "\<exists>b\<in>set as. arrival b < limit \<and> headers_match (info b) m
          \<and> map_of (info b) ATTR_SSDP_LOCATION \<noteq> None
          \<and> deliver limit m sa' as w'
              = w'\<lparr>discovery_info := Some (info b), device_discovered_event := True\<rparr>"
        with step show ?thesis by (auto simp: w'_def)
      qed
    qed
  qed
qed

lemma deliver_last_of_same_time:
  "deliver 10 [(''usn'', ''t'')] None
     [\<lparr>arrival = 2, info = [(''usn'', ''t''), (''ssdp_location'', ''http://a/'')]\<rparr>,
      \<lparr>arrival = 2, info = [(''usn'', ''t''), (''ssdp_location'', ''http://b/'')]\<rparr>,
      \<lparr>arrival = 3, info = [(''usn'', ''t''), (''ssdp_location'', ''http://c/'')]\<rparr>]
     \<lparr>discovery_info = None, device_discovered_event = False\<rparr>
   = \<lparr>discovery_info = Some [(''usn'', ''t''), (''ssdp_location'', ''http://b/'')],
      device_discovered_event = True\<rparr>"
  by (simp add: headers_match_def device_discovered_def ATTR_SSDP_LOCATION_def)




lemma wait_for_returns:
  assumes "wait_for env m t w0 = (Inr (), w)" "\<not> device_discovered_event w0"
  shows "\<exists>a\<in>set (announcements env). arrival a < t \<and> headers_match (info a) m
           \<and> discovery_info w = Some (info a) \<and> map_of (info a) ATTR_SSDP_LOCATION \<noteq> None"
proof -
  define limit where
    "limit = (case interrupt env of None \<Rightarrow> t | Some (c, _) \<Rightarrow> min c t)"
  have le: "limit \<le> t" by (simp add: limit_def split: option.splits prod.splits)
  from assms(1) have w: "w = deliver limit m None (announcements env) w0"
    and ev: "device_discovered_event (deliver limit m None (announcements env) w0)"
    by (auto simp: wait_for_def Let_def limit_def split: if_splits option.splits prod.splits)
  from deliver_cases [of limit m None "announcements env" w0] ev assms(2)
  obtain a where
    "a \<in> set (announcements env)" "arrival a < limit" "headers_match (info a) m"
    "discovery_info w = Some (info a)" "map_of (info a) ATTR_SSDP_LOCATION \<noteq> None"
    unfolding w by auto
  with le show ?thesis by (intro bexI [of _ a]) auto
qed

lemma wait_for_discovery_returns:
  assumes "wait_for_discovery env usn h = (Inr w, h')"
  shows "\<exists>a\<in>set (announcements env). arrival a < 10 \<and> headers_match (info a) [(''usn'', usn)]
           \<and> discovery_info w = Some (info a) \<and> map_of (info a) ATTR_SSDP_LOCATION \<noteq> None"
proof -
  let ?w0 = "\<lparr>discovery_info = None, device_discovered_event = False\<rparr>"
  from assms have "wait_for env [(''usn'', usn)] 10 ?w0 = (Inr (), w)"
    by (auto simp: wait_for_discovery_def Let_def
             split: prod.splits sum.splits error.splits option.splits)
  from wait_for_returns [OF this] show ?thesis by simp
qed




subsection \<open>The steps of \<^verbatim>\<open>async_setup_entry\<close>\<close>

lemma reconcile_entry_frame:
  "hass_data (reconcile_entry dev h) = hass_data h"
  "entry_id (entry (reconcile_entry dev h)) = entry_id (entry h)"
  "options (entry (reconcile_entry dev h)) = options (entry h)"
  by (simp_all add: reconcile_entry_def async_update_entry_def called_def Let_def)

lemma reconcile_entry_calls:
  "calls (reconcile_entry dev h)
     = calls h
       @ (if falsy (entry_unique_id (entry h))
          then [UpdateEntry (Some (unique_id dev)) None] else [])
       @ (if (case map_of (entry_data (entry h)) CONFIG_ENTRY_HOSTNAME of
                None \<Rightarrow> True | Some stored \<Rightarrow> stored \<noteq> hostname dev)
          then [UpdateEntry None
                  (Some (dict_update [(CONFIG_ENTRY_HOSTNAME, hostname dev)]
                           (entry_data (entry h))))]
          else [])"
  by (simp add: reconcile_entry_def async_update_entry_def called_def Let_def)

lemma reconcile_entry_sets_unique_id:
  "entry_unique_id (entry (reconcile_entry dev h))
     = (if falsy (entry_unique_id (entry h)) then Some (unique_id dev)
        else entry_unique_id (entry h))"
  by (simp add: reconcile_entry_def async_update_entry_def called_def Let_def)

lemma reconcile_entry_updates:
  "\<exists>ups. calls (reconcile_entry dev h) = calls h @ ups \<and> list_all is_update ups"
  by (simp add: reconcile_entry_calls is_update_def)

lemma start_coordinator_success:
  "fst (start_coordinator env dev h) = Inr True \<Longrightarrow>
   calls (snd (start_coordinator env dev h))
     = calls h @ [RegistryGetOrCreate (entry_id (entry h)) (udn dev) (name dev)
                    (manufacturer dev) (model_name dev),
                  FirstRefresh, SetupPlatforms PLATFORMS, DeviceStart]"
  by (auto simp: start_coordinator_def called_def Let_def async_config_entry_first_refresh_def
           split: option.splits prod.splits sum.splits if_splits)

lemma start_coordinator_failure:
  "fst (start_coordinator env dev h) \<noteq> Inr True \<Longrightarrow>
   (\<exists>err. fst (start_coordinator env dev h) = Inl err)
   \<and> (\<exists>tl. calls (snd (start_coordinator env dev h))
             = calls h @ RegistryGetOrCreate (entry_id (entry h)) (udn dev) (name dev)
                           (manufacturer dev) (model_name dev) # tl
          \<and> (tl = [] \<or> tl = [FirstRefresh]))"
  by (auto simp: start_coordinator_def called_def Let_def async_config_entry_first_refresh_def
           split: option.splits prod.splits sum.splits if_splits)

lemma start_coordinator_overflow:
  assumes "timedelta_seconds (dict_get (options (entry h)) CONFIG_ENTRY_SCAN_INTERVAL
                                DEFAULT_SCAN_INTERVAL) = Inl err"
  shows "start_coordinator env dev h
           = (Inl OverflowError,
              called (RegistryGetOrCreate (entry_id (entry h)) (udn dev) (name dev)
                        (manufacturer dev) (model_name dev)) h)"
  using assms
  by (auto simp: start_coordinator_def called_def Let_def timedelta_seconds_def
           split: if_splits)

lemma start_coordinator_entry:
  "entry (snd (start_coordinator env dev h)) = entry h"
  by (simp add: start_coordinator_def called_def Let_def async_config_entry_first_refresh_def
           split: option.splits prod.splits sum.splits)

lemma start_coordinator_result:
  "fst (start_coordinator env dev h) = Inr True
     \<longleftrightarrow> (\<exists>n. timedelta_seconds (dict_get (options (entry h)) CONFIG_ENTRY_SCAN_INTERVAL
                                   DEFAULT_SCAN_INTERVAL) = Inr n)
         \<and> hass_data h \<noteq> None \<and> (\<exists>d. async_update_data (first_refresh env) = Inr d)"
  by (auto simp: start_coordinator_def called_def Let_def async_config_entry_first_refresh_def
             async_refresh_def
           split: option.splits prod.splits sum.splits)

lemma start_coordinator_tail:
  "\<exists>tl. calls (snd (start_coordinator env dev h)) = calls h @ tl
         \<and> list_all (\<lambda>c. \<not> is_ssdp c) tl \<and> (\<forall>c\<in>set tl. \<not> is_update c)"
proof (cases "fst (start_coordinator env dev h) = Inr True")
  case True
  from start_coordinator_success [OF True] show ?thesis
    by (simp add: is_ssdp_def is_update_def)
next
  case False
  from start_coordinator_failure [OF False] show ?thesis
    by (auto simp: is_ssdp_def is_update_def)
qed

lemma is_update_not_ssdp: "list_all is_update ups \<Longrightarrow> list_all (\<lambda>c. \<not> is_ssdp c) ups"
  by (induction ups) (auto simp: is_update_def is_ssdp_def split: call.splits)

text \<open>
  An entry with its udn and its service type: the setup ends in the discovery
  wait, or at the construction of the device, or goes on with the device.
\<close>


lemma async_setup_entry_cases:
  assumes u: "map_of (entry_data (entry h)) CONFIG_ENTRY_UDN = Some u"
    and s: "map_of (entry_data (entry h)) CONFIG_ENTRY_ST = Some s"
  obtains
    (no_discovery) err where
      "fst (wait_for_discovery env (u @ ''::'' @ s) h) = Inl err"
      "async_setup_entry env h
         = (Inl err, h\<lparr>calls := calls h @ [RegisterCallback [(''usn'', u @ ''::'' @ s)],
                                          CancelCallback]\<rparr>)"
  | (no_device) a loc err where
      "a \<in> set (announcements env)" "arrival a < 10"
      "headers_match (info a) [(''usn'', u @ ''::'' @ s)]"
      "map_of (info a) ATTR_SSDP_LOCATION = Some loc"
      "create_device env loc = Inl err"
      "async_setup_entry env h
         = (Inl err, h\<lparr>calls := calls h @ [RegisterCallback [(''usn'', u @ ''::'' @ s)],
                                          CancelCallback, CreateDevice loc]\<rparr>)"
  | (device) a loc dev where
      "a \<in> set (announcements env)" "arrival a < 10"
      "headers_match (info a) [(''usn'', u @ ''::'' @ s)]"
      "map_of (info a) ATTR_SSDP_LOCATION = Some loc"
      "create_device env loc = Inr dev"
      "async_setup_entry env h
         = start_coordinator env dev (reconcile_entry dev
             (h\<lparr>calls := calls h @ [RegisterCallback [(''usn'', u @ ''::'' @ s)],
                                    CancelCallback, CreateDevice loc]\<rparr>))"
proof -
  let ?usn = "u @ ''::'' @ s"
  let ?h1 = "h\<lparr>calls := calls h @ [RegisterCallback [(''usn'', ?usn)], CancelCallback]\<rparr>"
  obtain r h' where wd: "wait_for_discovery env ?usn h = (r, h')"
    by (cases "wait_for_discovery env ?usn h")
  have h': "h' = ?h1"
    using snd_wait_for_discovery [of env ?usn h] wd by simp
  show thesis
  proof (cases r)
    case (Inl err)
    with wd h' u s have "async_setup_entry env h = (Inl err, ?h1)"
      by (simp add: async_setup_entry_def)
    moreover from wd Inl have "fst (wait_for_discovery env ?usn h) = Inl err" by simp
    ultimately show thesis by (intro no_discovery [of err])
  next
    case (Inr w)
    with wd obtain a where a: "a \<in> set (announcements env)" "arrival a < 10"
      "headers_match (info a) [(''usn'', ?usn)]" "discovery_info w = Some (info a)"
      "map_of (info a) ATTR_SSDP_LOCATION \<noteq> None"
      using wait_for_discovery_returns [of env ?usn h w h'] by blast
    then obtain loc where loc: "map_of (info a) ATTR_SSDP_LOCATION = Some loc" by blast
    show thesis
    proof (cases "create_device env loc")
      case (Inl err)
      with wd h' u s Inr a loc have
        "async_setup_entry env h
           = (Inl err, h\<lparr>calls := calls h @ [RegisterCallback [(''usn'', ?usn)],
                                            CancelCallback, CreateDevice loc]\<rparr>)"
        by (simp add: async_setup_entry_def called_def)
      with a loc Inl show thesis by (intro no_device [of a loc err])
    next
      case (Inr dev)
      with wd h' u s \<open>r = Inr w\<close> a loc have
        "async_setup_entry env h
           = start_coordinator env dev (reconcile_entry dev
               (h\<lparr>calls := calls h @ [RegisterCallback [(''usn'', ?usn)],
                                      CancelCallback, CreateDevice loc]\<rparr>))"
        by (simp add: async_setup_entry_def called_def)
      with a loc Inr show thesis by (intro device [of a loc dev])
    qed
  qed
qed

lemma setup_entry_calls:
  assumes u: "map_of (entry_data (entry h)) CONFIG_ENTRY_UDN = Some u"
    and s: "map_of (entry_data (entry h)) CONFIG_ENTRY_ST = Some s"
  shows "\<exists>rest. calls (snd (async_setup_entry env h))
                  = calls h @ [RegisterCallback [(''usn'', u @ ''::'' @ s)], CancelCallback] @ rest
               \<and> list_all (\<lambda>c. \<not> is_ssdp c) rest"
  using u s
proof (cases rule: async_setup_entry_cases [where env = env])
  case (no_discovery err)
  then show ?thesis by simp
next
  case (no_device a loc err)
  then show ?thesis by (simp add: is_ssdp_def)
next
  case (device a loc dev)
  let ?h3 = "h\<lparr>calls := calls h @ [RegisterCallback [(''usn'', u @ ''::'' @ s)],
                                   CancelCallback, CreateDevice loc]\<rparr>"
  obtain ups where ups: "calls (reconcile_entry dev ?h3) = calls ?h3 @ ups" "list_all is_update ups"
    using reconcile_entry_updates by blast
  obtain tl where tl: "calls (snd (start_coordinator env dev (reconcile_entry dev ?h3)))
                         = calls (reconcile_entry dev ?h3) @ tl"
    "list_all (\<lambda>c. \<not> is_ssdp c) tl"
    using start_coordinator_tail by blast
  have "list_all (\<lambda>c. \<not> is_ssdp c) (CreateDevice loc # ups @ tl)"
    using is_update_not_ssdp [OF ups(2)] tl(2) by (simp add: is_ssdp_def)
  moreover have "calls (snd (async_setup_entry env h))
                   = calls h @ [RegisterCallback [(''usn'', u @ ''::'' @ s)], CancelCallback]
                       @ (CreateDevice loc # ups @ tl)"
    unfolding device(6) tl(1) ups(1) by simp
  ultimately show ?thesis by blast
qed

lemma count_not_ssdp:
  "list_all (\<lambda>c. \<not> is_ssdp c) cs \<Longrightarrow> registrations cs = 0 \<and> cancellations cs = 0"
  by (induction cs) (auto simp: registrations_def cancellations_def is_ssdp_def split: call.splits)

lemma registrations_append: "registrations (xs @ ys) = registrations xs + registrations ys"
  by (simp add: registrations_def)

lemma cancellations_append: "cancellations (xs @ ys) = cancellations xs + cancellations ys"
  by (simp add: cancellations_def)

lemma stops_append: "stops (xs @ ys) = stops xs + stops ys"
  by (simp add: stops_def)

lemma reconcile_entry_unique_id:
  assumes "entry_unique_id (entry h) = Some u" "u \<noteq> []"
  shows "entry_unique_id (entry (reconcile_entry dev h)) = Some u"
    and "\<exists>ups. calls (reconcile_entry dev h) = calls h @ ups
           \<and> (\<forall>c\<in>set ups. \<exists>d. c = UpdateEntry None d)"
  using assms
  by (simp_all add: reconcile_entry_def async_update_entry_def called_def falsy_def Let_def)

subsection \<open>Running the examples\<close>

lemmas model_defs =
  async_setup_entry_def wait_for_discovery_def wait_for_def called_def headers_match_def
  device_discovered_def start_coordinator_def timedelta_seconds_def reconcile_entry_def
  falsy_def
  async_update_entry_def dict_update_def dict_get_def new_coordinator_def
  async_config_entry_first_refresh_def async_refresh_def async_update_data_def gather_def
  CONFIG_ENTRY_UDN_def CONFIG_ENTRY_ST_def CONFIG_ENTRY_HOSTNAME_def
  CONFIG_ENTRY_SCAN_INTERVAL_def DEFAULT_SCAN_INTERVAL_def ATTR_SSDP_LOCATION_def Let_def

lemmas example_defs =
  example_device_def example_fetches_def example_env_def example_hass_def silent_env_def
  cancelled_env_def failing_fetches_def failing_env_def late_env_def prompt_env_def
  asking_hass_def patient_hass_def hasty_hass_def fresh_hass_def

lemma example_entry_keys:
  "map_of (entry_data (entry example_hass)) CONFIG_ENTRY_UDN = Some ''udn123''"
  "map_of (entry_data (entry example_hass)) CONFIG_ENTRY_ST
     = Some ''urn:schemas-upnp-org:service:WANIPConnection:1''"
  by (simp_all add: example_hass_def CONFIG_ENTRY_UDN_def CONFIG_ENTRY_ST_def)

lemma example_setup_succeeds: "fst (async_setup_entry example_env example_hass) = Inr True"
  by (simp add: model_defs example_defs)

lemma silent_setup_not_ready:
  "fst (async_setup_entry silent_env example_hass) = Inl ConfigEntryNotReady"
  by (simp add: model_defs example_defs)

lemma cancelled_setup_raises:
  "fst (async_setup_entry cancelled_env example_hass) = Inl CancelledError"
  by (simp add: model_defs example_defs)

lemma failing_refresh_raises: "async_update_data failing_fetches = Inl NetworkError"
  by (simp add: model_defs example_defs)


lemma fresh_entry_keys:
  "map_of (entry_data (entry fresh_hass)) CONFIG_ENTRY_UDN = Some ''udn123''"
  "map_of (entry_data (entry fresh_hass)) CONFIG_ENTRY_ST
     = Some ''urn:schemas-upnp-org:service:WANIPConnection:1''"
  by (simp_all add: fresh_hass_def example_hass_def CONFIG_ENTRY_UDN_def CONFIG_ENTRY_ST_def)

lemma fresh_setup_succeeds: "fst (async_setup_entry example_env fresh_hass) = Inr True"
  by (simp add: model_defs example_defs)

subsection \<open>The discovery subscription\<close>

text \<open>
  C8: for every config entry with a stored udn and service type, the first
  call of the setup is the registration of the discovery callback, and the
  filter passed to every registration of the setup is the one token made of the
  udn, the separator \<^verbatim>\<open>::\<close> and the service type.
\<close>

theorem discovery_filter_token:
  assumes "map_of (entry_data (entry h)) CONFIG_ENTRY_UDN = Some u"
    and "map_of (entry_data (entry h)) CONFIG_ENTRY_ST = Some s"
  shows "hd (drop (length (calls h)) (calls (snd (async_setup_entry env h))))
           = RegisterCallback [(''usn'', u @ ''::'' @ s)]
         \<and> (\<forall>c\<in>set (drop (length (calls h)) (calls (snd (async_setup_entry env h)))).
               \<forall>f. c = RegisterCallback f \<longrightarrow> f = [(''usn'', u @ ''::'' @ s)])"
proof -
  from setup_entry_calls [OF assms, of env] obtain rest where
    c: "calls (snd (async_setup_entry env h))
          = calls h @ [RegisterCallback [(''usn'', u @ ''::'' @ s)], CancelCallback] @ rest"
    and r: "list_all (\<lambda>c. \<not> is_ssdp c) rest"
    by blast
  from r have "\<forall>c\<in>set rest. \<forall>f. c \<noteq> RegisterCallback f"
    by (auto simp: list_all_iff is_ssdp_def)
  then show ?thesis by (auto simp: c)
qed

theorem discovery_filter_token_witness:
  "map_of (entry_data (entry example_hass)) CONFIG_ENTRY_UDN = Some ''udn123''
   \<and> map_of (entry_data (entry example_hass)) CONFIG_ENTRY_ST
       = Some ''urn:schemas-upnp-org:service:WANIPConnection:1''
   \<and> hd (drop (length (calls example_hass)) (calls (snd (async_setup_entry example_env example_hass))))
       = RegisterCallback [(''usn'', ''udn123::urn:schemas-upnp-org:service:WANIPConnection:1'')]"
  using discovery_filter_token [OF example_entry_keys, of example_env] example_entry_keys
  by simp

text \<open>
  C4: whenever the setup reaches the discovery wait (the entry has its udn and
  its service type), the whole run registers the discovery callback exactly
  once and cancels it exactly once, the cancellation right after the
  registration; this holds for every environment, so whether an announcement
  arrives, the wait times out, or the wait raises another exception.
\<close>

theorem callback_registered_once_cancelled_once:
  assumes "map_of (entry_data (entry h)) CONFIG_ENTRY_UDN = Some u"
    and "map_of (entry_data (entry h)) CONFIG_ENTRY_ST = Some s"
  shows "registrations (calls (snd (async_setup_entry env h))) = registrations (calls h) + 1
         \<and> cancellations (calls (snd (async_setup_entry env h))) = cancellations (calls h) + 1
         \<and> take 2 (drop (length (calls h)) (calls (snd (async_setup_entry env h))))
             = [RegisterCallback [(''usn'', u @ ''::'' @ s)], CancelCallback]"
proof -
  from setup_entry_calls [OF assms, of env] obtain rest where
    c: "calls (snd (async_setup_entry env h))
          = calls h @ [RegisterCallback [(''usn'', u @ ''::'' @ s)], CancelCallback] @ rest"
    and r: "list_all (\<lambda>c. \<not> is_ssdp c) rest"
    by blast
  from count_not_ssdp [OF r] show ?thesis
    by (simp add: c registrations_append cancellations_append)
       (simp add: registrations_def cancellations_def)
qed

theorem callback_registered_once_cancelled_once_witness:
  "map_of (entry_data (entry example_hass)) CONFIG_ENTRY_UDN = Some ''udn123''
   \<and> map_of (entry_data (entry example_hass)) CONFIG_ENTRY_ST
       = Some ''urn:schemas-upnp-org:service:WANIPConnection:1''
   \<and> fst (async_setup_entry example_env example_hass) = Inr True
   \<and> registrations (calls (snd (async_setup_entry example_env example_hass))) = 1
   \<and> cancellations (calls (snd (async_setup_entry example_env example_hass))) = 1
   \<and> fst (async_setup_entry silent_env example_hass) = Inl ConfigEntryNotReady
   \<and> registrations (calls (snd (async_setup_entry silent_env example_hass))) = 1
   \<and> cancellations (calls (snd (async_setup_entry silent_env example_hass))) = 1
   \<and> fst (async_setup_entry cancelled_env example_hass) = Inl CancelledError
   \<and> registrations (calls (snd (async_setup_entry cancelled_env example_hass))) = 1
   \<and> cancellations (calls (snd (async_setup_entry cancelled_env example_hass))) = 1"
proof -
  have none: "registrations (calls example_hass) = 0" "cancellations (calls example_hass) = 0"
    by (simp_all add: example_hass_def registrations_def cancellations_def)
  show ?thesis
    using callback_registered_once_cancelled_once [OF example_entry_keys, of example_env]
      callback_registered_once_cancelled_once [OF example_entry_keys, of silent_env]
      callback_registered_once_cancelled_once [OF example_entry_keys, of cancelled_env]
    by (simp add: none example_entry_keys example_setup_succeeds silent_setup_not_ready
          cancelled_setup_raises)
qed




subsection \<open>The order of the setup\<close>

text \<open>
  C6: a successful setup makes exactly these calls, in this order: the
  registration and the cancellation of the discovery callback (the wait is
  over), the construction of the device from the location of a matching
  announcement that arrived in time, the reconciliation of the config entry
  (the update of the unique id if the entry has none, then the update of the
  data if the entry has no hostname or another one than the device), the
  device registry entry, the first refresh, the platforms, the start of the
  device's updater; an entry without a unique id has the device's afterwards.
  And if the first refresh fails, the setup raises and neither sets up the
  platforms nor starts the updater.
\<close>

theorem setup_steps_in_order:
  "(fst (async_setup_entry env h) = Inr True \<longrightarrow>
      (\<exists>u s a loc dev.
          map_of (entry_data (entry h)) CONFIG_ENTRY_UDN = Some u
        \<and> map_of (entry_data (entry h)) CONFIG_ENTRY_ST = Some s
        \<and> a \<in> set (announcements env) \<and> arrival a < 10
        \<and> headers_match (info a) [(''usn'', u @ ''::'' @ s)]
        \<and> map_of (info a) ATTR_SSDP_LOCATION = Some loc
        \<and> create_device env loc = Inr dev
        \<and> calls (snd (async_setup_entry env h))
            = calls h
              @ [RegisterCallback [(''usn'', u @ ''::'' @ s)], CancelCallback, CreateDevice loc]
              @ (if falsy (entry_unique_id (entry h))
                 then [UpdateEntry (Some (unique_id dev)) None] else [])
              @ (if (case map_of (entry_data (entry h)) CONFIG_ENTRY_HOSTNAME of
                       None \<Rightarrow> True | Some stored \<Rightarrow> stored \<noteq> hostname dev)
                 then [UpdateEntry None
                         (Some (dict_update [(CONFIG_ENTRY_HOSTNAME, hostname dev)]
                                  (entry_data (entry h))))]
                 else [])
              @ [RegistryGetOrCreate (entry_id (entry h)) (udn dev) (name dev)
                   (manufacturer dev) (model_name dev),
                 FirstRefresh, SetupPlatforms PLATFORMS, DeviceStart]
        \<and> entry_unique_id (entry (snd (async_setup_entry env h)))
            = (if falsy (entry_unique_id (entry h)) then Some (unique_id dev)
               else entry_unique_id (entry h))))
   \<and> ((\<exists>e. async_update_data (first_refresh env) = Inl e) \<longrightarrow>
        (\<exists>err. fst (async_setup_entry env h) = Inl err)
        \<and> (\<forall>c\<in>set (drop (length (calls h)) (calls (snd (async_setup_entry env h)))).
              c \<noteq> SetupPlatforms PLATFORMS \<and> c \<noteq> DeviceStart))"
proof (cases "map_of (entry_data (entry h)) CONFIG_ENTRY_UDN")
  case None
  then show ?thesis by (simp add: async_setup_entry_def)
next
  case u: (Some u)
  show ?thesis
  proof (cases "map_of (entry_data (entry h)) CONFIG_ENTRY_ST")
    case None
    with u show ?thesis by (simp add: async_setup_entry_def)
  next
    case s: (Some s)
    from u s show ?thesis
    proof (cases rule: async_setup_entry_cases [where env = env])
      case (no_discovery err)
      then show ?thesis by simp
    next
      case (no_device a loc err)
      then show ?thesis by simp
    next
      case (device a loc dev)
      let ?h3 = "h\<lparr>calls := calls h @ [RegisterCallback [(''usn'', u @ ''::'' @ s)],
                                       CancelCallback, CreateDevice loc]\<rparr>"
      let ?h4 = "reconcile_entry dev ?h3"
      let ?id = "if falsy (entry_unique_id (entry h))
                 then [UpdateEntry (Some (unique_id dev)) None] else []"
      let ?hn = "if (case map_of (entry_data (entry h)) CONFIG_ENTRY_HOSTNAME of
                       None \<Rightarrow> True | Some stored \<Rightarrow> stored \<noteq> hostname dev)
                 then [UpdateEntry None
                         (Some (dict_update [(CONFIG_ENTRY_HOSTNAME, hostname dev)]
                                  (entry_data (entry h))))]
                 else []"
      have ups: "calls ?h4 = calls ?h3 @ ?id @ ?hn"
        using reconcile_entry_calls [of dev ?h3] by simp
      have id: "entry_id (entry ?h4) = entry_id (entry h)"
        by (simp add: reconcile_entry_frame)
      have uid: "entry_unique_id (entry (snd (async_setup_entry env h)))
                   = (if falsy (entry_unique_id (entry h)) then Some (unique_id dev)
                      else entry_unique_id (entry h))"
        unfolding device(6) start_coordinator_entry reconcile_entry_sets_unique_id by simp
      have first: ?thesis if ok: "fst (async_setup_entry env h) = Inr True"
      proof -
        from ok have t: "fst (start_coordinator env dev ?h4) = Inr True"
          unfolding device(6) by simp
        have c: "calls (snd (async_setup_entry env h))
            = calls h
              @ [RegisterCallback [(''usn'', u @ ''::'' @ s)], CancelCallback, CreateDevice loc]
              @ ?id @ ?hn
              @ [RegistryGetOrCreate (entry_id (entry h)) (udn dev) (name dev)
                   (manufacturer dev) (model_name dev),
                 FirstRefresh, SetupPlatforms PLATFORMS, DeviceStart]"
          unfolding device(6) start_coordinator_success [OF t] ups id by simp
        from t have "\<nexists>e. async_update_data (first_refresh env) = Inl e"
          unfolding start_coordinator_result by auto
        with c uid u s device(1-5) ok show ?thesis by blast
      qed
      have second: ?thesis if no: "fst (async_setup_entry env h) \<noteq> Inr True"
      proof -
        from no have t: "fst (start_coordinator env dev ?h4) \<noteq> Inr True"
          unfolding device(6) by simp
        from start_coordinator_failure [OF t] obtain tl where
          err: "\<exists>err. fst (async_setup_entry env h) = Inl err"
          and tl: "calls (snd (start_coordinator env dev ?h4))
                     = calls ?h4 @ RegistryGetOrCreate (entry_id (entry ?h4)) (udn dev) (name dev)
                                     (manufacturer dev) (model_name dev) # tl"
            "tl = [] \<or> tl = [FirstRefresh]"
          unfolding device(6) by blast
        have "drop (length (calls h)) (calls (snd (async_setup_entry env h)))
                = [RegisterCallback [(''usn'', u @ ''::'' @ s)], CancelCallback, CreateDevice loc]
                  @ ?id @ ?hn
                  @ RegistryGetOrCreate (entry_id (entry ?h4)) (udn dev) (name dev)
                      (manufacturer dev) (model_name dev) # tl"
          unfolding device(6) tl(1) ups by simp
        moreover have "\<forall>c\<in>set (?id @ ?hn). c \<noteq> SetupPlatforms PLATFORMS \<and> c \<noteq> DeviceStart"
          by auto
        ultimately show ?thesis using no err tl(2) by auto
      qed
      from first second show ?thesis by blast
    qed
  qed
qed

theorem setup_steps_in_order_witness:
  "fst (async_setup_entry example_env fresh_hass) = Inr True
   \<and> calls (snd (async_setup_entry example_env fresh_hass))
       = [RegisterCallback [(''usn'', ''udn123::urn:schemas-upnp-org:service:WANIPConnection:1'')],
          CancelCallback,
          CreateDevice ''http://192.168.1.1:1900/desc.xml'',
          UpdateEntry (Some ''udn123::igd'') None,
          UpdateEntry None
            (Some [(''hostname'', ''192.168.1.1''), (''udn'', ''udn123''),
                   (''st'', ''urn:schemas-upnp-org:service:WANIPConnection:1'')]),
          RegistryGetOrCreate ''entry1'' ''udn123'' ''Router'' ''ACME'' ''IGD'',
          FirstRefresh, SetupPlatforms PLATFORMS, DeviceStart]
   \<and> entry_unique_id (entry (snd (async_setup_entry example_env fresh_hass)))
       = Some ''udn123::igd''
   \<and> async_update_data (first_refresh failing_env) = Inl NetworkError
   \<and> (\<exists>err. fst (async_setup_entry failing_env example_hass) = Inl err)
   \<and> SetupPlatforms PLATFORMS \<notin> set (calls (snd (async_setup_entry failing_env example_hass)))
   \<and> DeviceStart \<notin> set (calls (snd (async_setup_entry failing_env example_hass)))"
proof -
  from setup_steps_in_order [of example_env fresh_hass] fresh_setup_succeeds
  obtain u s a loc dev where
    u: "map_of (entry_data (entry fresh_hass)) CONFIG_ENTRY_UDN = Some u"
    and s: "map_of (entry_data (entry fresh_hass)) CONFIG_ENTRY_ST = Some s"
    and a: "a \<in> set (announcements example_env)"
    and loc: "map_of (info a) ATTR_SSDP_LOCATION = Some loc"
    and dev: "create_device example_env loc = Inr dev"
    and c: "calls (snd (async_setup_entry example_env fresh_hass))
              = calls fresh_hass
                @ [RegisterCallback [(''usn'', u @ ''::'' @ s)], CancelCallback, CreateDevice loc]
                @ (if falsy (entry_unique_id (entry fresh_hass))
                   then [UpdateEntry (Some (unique_id dev)) None] else [])
                @ (if (case map_of (entry_data (entry fresh_hass)) CONFIG_ENTRY_HOSTNAME of
                         None \<Rightarrow> True | Some stored \<Rightarrow> stored \<noteq> hostname dev)
                   then [UpdateEntry None
                           (Some (dict_update [(CONFIG_ENTRY_HOSTNAME, hostname dev)]
                                    (entry_data (entry fresh_hass))))]
                   else [])
                @ [RegistryGetOrCreate (entry_id (entry fresh_hass)) (udn dev) (name dev)
                     (manufacturer dev) (model_name dev),
                   FirstRefresh, SetupPlatforms PLATFORMS, DeviceStart]"
    and uid: "entry_unique_id (entry (snd (async_setup_entry example_env fresh_hass)))
                = (if falsy (entry_unique_id (entry fresh_hass)) then Some (unique_id dev)
                   else entry_unique_id (entry fresh_hass))"
    by blast
  from u s have us: "u = ''udn123''" "s = ''urn:schemas-upnp-org:service:WANIPConnection:1''"
    by (simp_all add: fresh_entry_keys)
  from a loc have l: "loc = ''http://192.168.1.1:1900/desc.xml''"
    by (simp add: example_env_def ATTR_SSDP_LOCATION_def)
  from dev l have d: "dev = example_device"
    by (simp add: example_env_def)
  have log: "calls (snd (async_setup_entry example_env fresh_hass))
       = [RegisterCallback [(''usn'', ''udn123::urn:schemas-upnp-org:service:WANIPConnection:1'')],
          CancelCallback,
          CreateDevice ''http://192.168.1.1:1900/desc.xml'',
          UpdateEntry (Some ''udn123::igd'') None,
          UpdateEntry None
            (Some [(''hostname'', ''192.168.1.1''), (''udn'', ''udn123''),
                   (''st'', ''urn:schemas-upnp-org:service:WANIPConnection:1'')]),
          RegistryGetOrCreate ''entry1'' ''udn123'' ''Router'' ''ACME'' ''IGD'',
          FirstRefresh, SetupPlatforms PLATFORMS, DeviceStart]"
    unfolding c us l d
    by (simp add: fresh_hass_def example_hass_def example_device_def falsy_def
          CONFIG_ENTRY_HOSTNAME_def dict_update_def)
  have id: "entry_unique_id (entry (snd (async_setup_entry example_env fresh_hass)))
              = Some ''udn123::igd''"
    unfolding uid d
    by (simp add: fresh_hass_def example_hass_def example_device_def falsy_def)
  have f: "async_update_data (first_refresh failing_env) = Inl NetworkError"
    using failing_refresh_raises by (simp add: failing_env_def)
  then have "\<exists>e. async_update_data (first_refresh failing_env) = Inl e" ..
  with setup_steps_in_order [of failing_env example_hass]
  have err: "\<exists>err. fst (async_setup_entry failing_env example_hass) = Inl err"
    and no: "\<forall>c\<in>set (drop (length (calls example_hass))
                        (calls (snd (async_setup_entry failing_env example_hass)))).
               c \<noteq> SetupPlatforms PLATFORMS \<and> c \<noteq> DeviceStart"
    by blast+
  from no have "SetupPlatforms PLATFORMS
                  \<notin> set (calls (snd (async_setup_entry failing_env example_hass)))"
    and "DeviceStart \<notin> set (calls (snd (async_setup_entry failing_env example_hass)))"
    by (auto simp: example_hass_def)
  with fresh_setup_succeeds log id f err show ?thesis by blast
qed

subsection \<open>The reconciliation of the config entry\<close>

text \<open>
  What lines 136-144 do to the stored hostname of an entry (a mapping: its keys
  are distinct): a stored hostname stays, whatever the hostname of the device
  is; a missing one is set to the device's; and an entry whose hostname is
  current and whose unique id is set is not written at all.
\<close>

lemma reconcile_entry_keeps_stored_hostname:
  assumes "map_of (entry_data (entry h)) CONFIG_ENTRY_HOSTNAME = Some stored"
    and "distinct (map fst (entry_data (entry h)))"
  shows "map_of (entry_data (entry (reconcile_entry dev h))) CONFIG_ENTRY_HOSTNAME = Some stored"
proof -
  have "map_of (dict_update [(CONFIG_ENTRY_HOSTNAME, hostname dev)] (entry_data (entry h)))
          CONFIG_ENTRY_HOSTNAME = Some stored"
    using assms by (simp add: map_of_dict_update map_add_def)
  with assms(1) show ?thesis
    by (simp add: reconcile_entry_def async_update_entry_def called_def Let_def)
qed

lemma reconcile_entry_adds_missing_hostname:
  assumes "map_of (entry_data (entry h)) CONFIG_ENTRY_HOSTNAME = None"
    and "distinct (map fst (entry_data (entry h)))"
  shows "map_of (entry_data (entry (reconcile_entry dev h))) CONFIG_ENTRY_HOSTNAME
           = Some (hostname dev)"
proof -
  have "map_of (dict_update [(CONFIG_ENTRY_HOSTNAME, hostname dev)] (entry_data (entry h)))
          CONFIG_ENTRY_HOSTNAME = Some (hostname dev)"
    using assms by (simp add: map_of_dict_update map_add_def)
  with assms(1) show ?thesis
    by (simp add: reconcile_entry_def async_update_entry_def called_def Let_def)
qed

lemma reconcile_entry_current_no_write:
  assumes "map_of (entry_data (entry h)) CONFIG_ENTRY_HOSTNAME = Some (hostname dev)"
    and "\<not> falsy (entry_unique_id (entry h))"
  shows "reconcile_entry dev h = h"
  using assms by (simp add: reconcile_entry_def)

text \<open>
  C10: a config entry whose unique id is not empty keeps it through the setup,
  whatever the unique id of the discovered device is and however the setup
  ends, and no update of the entry made by the setup passes a unique id.
\<close>

theorem existing_unique_id_kept:
  assumes "entry_unique_id (entry h) = Some u" and "u \<noteq> []"
  shows "entry_unique_id (entry (snd (async_setup_entry env h))) = Some u
         \<and> (\<forall>c\<in>set (drop (length (calls h)) (calls (snd (async_setup_entry env h)))).
               \<forall>x d. c = UpdateEntry x d \<longrightarrow> x = None)"
proof (cases "map_of (entry_data (entry h)) CONFIG_ENTRY_UDN")
  case None
  with assms show ?thesis by (simp add: async_setup_entry_def)
next
  case u: (Some udn')
  show ?thesis
  proof (cases "map_of (entry_data (entry h)) CONFIG_ENTRY_ST")
    case None
    with u assms show ?thesis by (simp add: async_setup_entry_def)
  next
    case s: (Some st')
    from u s show ?thesis
    proof (cases rule: async_setup_entry_cases [where env = env])
      case (no_discovery err)
      with assms show ?thesis by simp
    next
      case (no_device a loc err)
      with assms show ?thesis by simp
    next
      case (device a loc dev)
      let ?h3 = "h\<lparr>calls := calls h @ [RegisterCallback [(''usn'', udn' @ ''::'' @ st')],
                                       CancelCallback, CreateDevice loc]\<rparr>"
      let ?h4 = "reconcile_entry dev ?h3"
      from assms have a3: "entry_unique_id (entry ?h3) = Some u" by simp
      from reconcile_entry_unique_id [OF a3 assms(2), of dev]
      obtain ups where kept: "entry_unique_id (entry ?h4) = Some u"
        and ups: "calls ?h4 = calls ?h3 @ ups" "\<forall>c\<in>set ups. \<exists>d. c = UpdateEntry None d"
        by blast
      obtain tl where tl: "calls (snd (start_coordinator env dev ?h4)) = calls ?h4 @ tl"
        "\<forall>c\<in>set tl. \<not> is_update c"
        using start_coordinator_tail by blast
      have "drop (length (calls h)) (calls (snd (async_setup_entry env h)))
              = [RegisterCallback [(''usn'', udn' @ ''::'' @ st')], CancelCallback,
                 CreateDevice loc] @ ups @ tl"
        unfolding device(6) tl(1) ups(1) by simp
      then have "\<forall>c\<in>set (drop (length (calls h)) (calls (snd (async_setup_entry env h)))).
               \<forall>x d. c = UpdateEntry x d \<longrightarrow> x = None"
        using ups(2) tl(2) by (auto simp: is_update_def)
      moreover have "entry_unique_id (entry (snd (async_setup_entry env h))) = Some u"
        unfolding device(6) start_coordinator_entry by (rule kept)
      ultimately show ?thesis by blast
    qed
  qed
qed

theorem existing_unique_id_kept_witness:
  "entry_unique_id (entry example_hass) = Some ''older-id''
   \<and> ''older-id'' \<noteq> []
   \<and> unique_id example_device = ''udn123::igd''
   \<and> fst (async_setup_entry example_env example_hass) = Inr True
   \<and> entry_unique_id (entry (snd (async_setup_entry example_env example_hass))) = Some ''older-id''"
proof -
  have u: "entry_unique_id (entry example_hass) = Some ''older-id''"
    by (simp add: example_hass_def)
  have n: "''older-id'' \<noteq> []" by simp
  from existing_unique_id_kept [OF u n, of example_env] u example_setup_succeeds
  show ?thesis by (simp add: example_device_def)
qed

text \<open>
  C1 fails on the code. The entry stores the hostname \<^verbatim>\<open>10.0.0.1\<close>, the discovered
  device has the hostname \<^verbatim>\<open>192.168.1.1\<close>; the setup succeeds and calls
  \<^verbatim>\<open>async_update_entry\<close> with the data \<^verbatim>\<open>{CONFIG_ENTRY_HOSTNAME: device.hostname, **entry.data}\<close>,
  in which the stored hostname of \<^verbatim>\<open>entry.data\<close> replaces the discovered one: the entry
  still stores \<^verbatim>\<open>10.0.0.1\<close> afterwards.
\<close>

theorem stale_hostname_survives_setup:
  "map_of (entry_data (entry example_hass)) CONFIG_ENTRY_HOSTNAME = Some ''10.0.0.1''
   \<and> hostname example_device = ''192.168.1.1''
   \<and> fst (async_setup_entry example_env example_hass) = Inr True
   \<and> UpdateEntry None (Some [(''hostname'', ''10.0.0.1''), (''udn'', ''udn123''),
                               (''st'', ''urn:schemas-upnp-org:service:WANIPConnection:1'')])
       \<in> set (calls (snd (async_setup_entry example_env example_hass)))
   \<and> map_of (entry_data (entry (snd (async_setup_entry example_env example_hass))))
         CONFIG_ENTRY_HOSTNAME = Some ''10.0.0.1''"
  by (simp add: model_defs example_defs)

subsection \<open>Component setup\<close>

text \<open>
  C9: the local source IP that \<^verbatim>\<open>async_setup\<close> stores in the shared data is the
  configured local IP when the configuration of the component has one, and the
  detected source IP otherwise.
\<close>

theorem configured_local_ip_first:
  "\<exists>d. hass_data (snd (async_setup env config h)) = Some d
      \<and> (\<forall>conf ip. map_of config DOMAIN = Some conf \<and> map_of conf CONF_LOCAL_IP = Some ip
            \<longrightarrow> domain_local_ip d = ip)
      \<and> (map_of config DOMAIN = None
           \<or> (\<exists>conf. map_of config DOMAIN = Some conf \<and> map_of conf CONF_LOCAL_IP = None)
            \<longrightarrow> domain_local_ip d = source_ip env)"
  by (auto simp: async_setup_def dict_get_def called_def Let_def)

theorem configured_local_ip_first_witness:
  "(\<exists>d. hass_data (snd (async_setup example_env [(''upnp'', [(''local_ip'', ''192.168.1.77'')])]
                        example_hass)) = Some d
       \<and> domain_local_ip d = ''192.168.1.77'')
   \<and> (\<exists>d. hass_data (snd (async_setup example_env [] example_hass)) = Some d
          \<and> domain_local_ip d = source_ip example_env)"
proof -
  have "map_of [(''upnp'', [(''local_ip'', ''192.168.1.77'')])] DOMAIN
          = Some [(''local_ip'', ''192.168.1.77'')]
        \<and> map_of [(''local_ip'', ''192.168.1.77'')] CONF_LOCAL_IP = Some ''192.168.1.77''"
    by (simp add: DOMAIN_def CONF_LOCAL_IP_def)
  with configured_local_ip_first
         [of example_env "[(''upnp'', [(''local_ip'', ''192.168.1.77'')])]" example_hass]
  have one: "\<exists>d. hass_data (snd (async_setup example_env
                     [(''upnp'', [(''local_ip'', ''192.168.1.77'')])] example_hass)) = Some d
               \<and> domain_local_ip d = ''192.168.1.77''"
    by blast
  have "map_of ([] :: (string, (string, string) py_dict) py_dict) DOMAIN = None"
    by simp
  with configured_local_ip_first [of example_env "[]" example_hass]
  have two: "\<exists>d. hass_data (snd (async_setup example_env [] example_hass)) = Some d
               \<and> domain_local_ip d = source_ip example_env"
    by blast
  from one two show ?thesis ..
qed

subsection \<open>Unloading\<close>

text \<open>
  C7: when the component is set up, two unloads of the same config entry in
  succession both return without an error; the first one stops the device if a
  coordinator is stored for the entry and removes the coordinator, the second
  one finds none and stops nothing (so the device is stopped at most once) and
  still unloads the platforms.
\<close>

theorem unload_twice_stops_once:
  assumes "hass_data h = Some d"
  shows "(\<exists>b1 h1 b2 h2.
            async_unload_entry env1 h = (Inr b1, h1)
          \<and> async_unload_entry env2 h1 = (Inr b2, h2)
          \<and> stops (calls h1)
              = stops (calls h) + (if map_of (coordinators d) (entry_id (entry h)) = None then 0 else 1)
          \<and> stops (calls h2) = stops (calls h1)
          \<and> (\<exists>d1. hass_data h1 = Some d1
                 \<and> map_of (coordinators d1) (entry_id (entry h)) = None)
          \<and> calls h2 = calls h1 @ [UnloadPlatforms PLATFORMS])"
proof -
  let ?d1 = "d\<lparr>coordinators := AList.delete (entry_id (entry h)) (coordinators d)\<rparr>"
  obtain r1 h1 where one: "async_unload_entry env1 h = (r1, h1)"
    by (cases "async_unload_entry env1 h")
  from one assms have r1: "r1 = Inr (platforms_unloaded env1)"
    and d1: "hass_data h1 = Some ?d1" and e1: "entry h1 = entry h"
    and c1: "calls h1 = calls h
               @ (if map_of (coordinators d) (entry_id (entry h)) = None then [] else [DeviceStop])
               @ [UnloadPlatforms PLATFORMS]"
    by (auto simp: async_unload_entry_def called_def Let_def split: option.splits)
  have gone: "map_of (coordinators ?d1) (entry_id (entry h)) = None"
    by (simp add: delete_conv')
  obtain r2 h2 where two: "async_unload_entry env2 h1 = (r2, h2)"
    by (cases "async_unload_entry env2 h1")
  from two d1 e1 gone have r2: "r2 = Inr (platforms_unloaded env2)"
    and c2: "calls h2 = calls h1 @ [UnloadPlatforms PLATFORMS]"
    by (auto simp: async_unload_entry_def called_def Let_def split: option.splits)
  have "stops (calls h1)
          = stops (calls h) + (if map_of (coordinators d) (entry_id (entry h)) = None then 0 else 1)"
    by (simp add: c1 stops_append) (simp add: stops_def)
  moreover have "stops (calls h2) = stops (calls h1)"
    by (simp add: c2 stops_append) (simp add: stops_def)
  ultimately show ?thesis
    using one two r1 r2 d1 gone c2 by simp
qed

theorem unload_twice_stops_once_witness:
  "hass_data loaded_hass = Some loaded_data
   \<and> (\<exists>b1 h1 b2 h2.
          async_unload_entry example_env loaded_hass = (Inr b1, h1)
        \<and> async_unload_entry example_env h1 = (Inr b2, h2)
        \<and> stops (calls h1) = 1
        \<and> stops (calls h2) = 1)"
proof -
  have d: "hass_data loaded_hass = Some loaded_data"
    by (simp add: loaded_hass_def)
  have c: "map_of (coordinators loaded_data) (entry_id (entry loaded_hass)) \<noteq> None"
    by (simp add: loaded_hass_def loaded_data_def example_hass_def)
  have z: "stops (calls loaded_hass) = 0"
    by (simp add: loaded_hass_def example_hass_def stops_def)
  from unload_twice_stops_once [OF d, of example_env example_env] c z
  have "\<exists>b1 h1 b2 h2.
          async_unload_entry example_env loaded_hass = (Inr b1, h1)
        \<and> async_unload_entry example_env h1 = (Inr b2, h2)
        \<and> stops (calls h1) = 1
        \<and> stops (calls h2) = 1"
    by (auto simp del: not_None_eq)
  with d show ?thesis ..
qed

end
